theory Spec2Isabelle
  imports Complex_Main
begin


section \<open>Python values, strings and exceptions\<close>

text \<open>
  The report generator of \<^verbatim>\<open>excel_report_generator.py\<close> is embedded function by
  function. An exception is a value of \<open>py_error\<close>; a function that can raise returns
  \<open>py_error + 'a\<close> with \<open>Inl\<close> for the exception. \<open>KeyError\<close> carries the keys
  that were not found, as the exception's argument does.
\<close>

datatype py_error =
    KeyError "string list"
  | IndexError
  | ValueError
  | TypeError
  | OSError

fun exc_class :: "py_error \<Rightarrow> string" where
  "exc_class (KeyError ks) = ''KeyError''"
| "exc_class IndexError = ''IndexError''"
| "exc_class ValueError = ''ValueError''"
| "exc_class TypeError = ''TypeError''"
| "exc_class OSError = ''OSError''"

text \<open>
  Strings are lists of bytes; the case conversions below are those of Python on ASCII
  letters, every other character is uncased.
\<close>

definition is_upper :: "char \<Rightarrow> bool" where
  "is_upper c = (65 \<le> (of_char c :: nat) \<and> (of_char c :: nat) \<le> 90)"

definition is_lower :: "char \<Rightarrow> bool" where
  "is_lower c = (97 \<le> (of_char c :: nat) \<and> (of_char c :: nat) \<le> 122)"

definition to_upper :: "char \<Rightarrow> char" where
  "to_upper c = (if is_lower c then char_of ((of_char c :: nat) - 32) else c)"

definition to_lower :: "char \<Rightarrow> char" where
  "to_lower c = (if is_upper c then char_of ((of_char c :: nat) + 32) else c)"

text \<open>
  \<^verbatim>\<open>str.title()\<close>: a cased character is upper-cased when the character before it is
  uncased (or there is none) and lower-cased otherwise. The flag is "the previous
  character is cased".
\<close>

fun title_from :: "bool \<Rightarrow> string \<Rightarrow> string" where
  "title_from prev [] = []"
| "title_from prev (c # cs) =
     (if is_lower c then (if prev then c else to_upper c) # title_from True cs
      else if is_upper c then (if prev then to_lower c else c) # title_from True cs
      else c # title_from False cs)"

definition py_title :: "string \<Rightarrow> string" where
  "py_title s = title_from False s"

text \<open>\<^verbatim>\<open>s.replace(a, b)\<close> for single characters.\<close>

definition replace_char :: "char \<Rightarrow> char \<Rightarrow> string \<Rightarrow> string" where
  "replace_char a b s = map (\<lambda>c. if c = a then b else c) s"

text \<open>Indexing a sequence with a Python integer: negative indices count from the end.\<close>

definition py_index :: "'a list \<Rightarrow> int \<Rightarrow> py_error + 'a" where
  "py_index xs i =
     (if 0 \<le> i \<and> i < int (length xs) then Inr (xs ! nat i)
      else if i < 0 \<and> - int (length xs) \<le> i then Inr (xs ! nat (int (length xs) + i))
      else Inl IndexError)"

text \<open>Decimal rendering of a non-negative integer and of any integer (\<^verbatim>\<open>str(n)\<close>).\<close>

definition digit_char :: "nat \<Rightarrow> char" where
  "digit_char d = ''0123456789'' ! d"

function digits_of :: "int \<Rightarrow> string" where
  "digits_of n =
     (if n < 10 then [digit_char (nat n)]
      else digits_of (n div 10) @ [digit_char (nat (n mod 10))])"
  by pat_completeness auto
termination
  by (relation "measure nat") auto

declare digits_of.simps [simp del]

definition str_int :: "int \<Rightarrow> string" where
  "str_int i = (if i < 0 then CHR ''-'' # digits_of (- i) else digits_of i)"


section \<open>Cell values and data frames\<close>

text \<open>
  A value stored in a data frame or a worksheet cell. \<open>FloatV\<close> carries the exact
  rational value of a finite binary64 number. \<open>OtherV\<close> stands for a value of any other
  type (a timestamp, an arbitrary object); it carries what \<^verbatim>\<open>str()\<close> returns for it,
  \<open>None\<close> when \<^verbatim>\<open>str()\<close> raises.
\<close>

datatype cell_value =
    NoneV
  | IntV int
  | FloatV rat
  | StrV string
  | BoolV bool
  | OtherV "string option"

text \<open>
  A \<^verbatim>\<open>pandas.DataFrame\<close> with the default index: the column labels in order and the
  rows in order, each row holding one value per column. \<^verbatim>\<open>len(df)\<close> is the number of
  rows and \<^verbatim>\<open>len(df.columns)\<close> the number of labels.
\<close>

record dataframe =
  df_columns :: "string list"
  df_rows :: "cell_value list list"


text \<open>
  \<^verbatim>\<open>dataframe_to_rows(df, index=False, header=True)\<close>: the header row, then the data rows.
\<close>

definition dataframe_to_rows :: "dataframe \<Rightarrow> cell_value list list" where
  "dataframe_to_rows df = map StrV (df_columns df) # df_rows df"


section \<open>Worksheets\<close>

record border =
  b_left :: "string option"
  b_right :: "string option"
  b_top :: "string option"
  b_bottom :: "string option"

record font =
  f_bold :: bool
  f_italic :: bool
  f_color :: "string option"
  f_size :: "nat option"

record alignment =
  a_horizontal :: "string option"
  a_vertical :: "string option"

text \<open>The fill of a cell is the colour of its solid pattern fill, \<open>None\<close> for no fill.\<close>

record cell =
  cvalue :: cell_value
  cfill :: "string option"
  cfont :: font
  calignment :: alignment
  cborder :: border

definition no_border :: border where
  "no_border = \<lparr>b_left = None, b_right = None, b_top = None, b_bottom = None\<rparr>"

definition thin_border :: border where
  "thin_border = \<lparr>b_left = Some ''thin'', b_right = Some ''thin'',
                  b_top = Some ''thin'', b_bottom = Some ''thin''\<rparr>"

definition default_font :: font where
  "default_font = \<lparr>f_bold = False, f_italic = False, f_color = None, f_size = None\<rparr>"

definition default_alignment :: alignment where
  "default_alignment = \<lparr>a_horizontal = None, a_vertical = None\<rparr>"

definition new_cell :: "cell_value \<Rightarrow> cell" where
  "new_cell v = \<lparr>cvalue = v, cfill = None, cfont = default_font,
                 calignment = default_alignment, cborder = no_border\<rparr>"

text \<open>
  A worksheet is a store of cells addressed by (row, column), both counted from 1,
  together with the row of the last \<^verbatim>\<open>append\<close>, the largest row and column that hold a
  cell, the merged ranges and the column widths (addressed by column number, which the
  library writes as a letter).
\<close>

record worksheet =
  ws_title :: string
  ws_cells :: "nat \<times> nat \<Rightarrow> cell option"
  ws_current_row :: nat
  ws_max_row :: nat
  ws_max_column :: nat
  ws_merged :: "string list"
  ws_width :: "nat \<Rightarrow> nat option"

definition empty_sheet :: "string \<Rightarrow> worksheet" where
  "empty_sheet t = \<lparr>ws_title = t, ws_cells = (\<lambda>_. None), ws_current_row = 0,
                    ws_max_row = 0, ws_max_column = 0, ws_merged = [],
                    ws_width = (\<lambda>_. None)\<rparr>"

text \<open>Looking a cell up creates it when the sheet does not hold it yet.\<close>

definition get_cell :: "worksheet \<Rightarrow> nat \<Rightarrow> nat \<Rightarrow> cell" where
  "get_cell ws r c = (case ws_cells ws (r, c) of Some x \<Rightarrow> x | None \<Rightarrow> new_cell NoneV)"

definition put_cell :: "nat \<Rightarrow> nat \<Rightarrow> cell \<Rightarrow> worksheet \<Rightarrow> worksheet" where
  "put_cell r c x ws =
     ws\<lparr>ws_cells := (ws_cells ws)((r, c) \<mapsto> x),
        ws_max_row := max (ws_max_row ws) r,
        ws_max_column := max (ws_max_column ws) c\<rparr>"

definition update_cell :: "nat \<Rightarrow> nat \<Rightarrow> (cell \<Rightarrow> cell) \<Rightarrow> worksheet \<Rightarrow> worksheet" where
  "update_cell r c f ws = put_cell r c (f (get_cell ws r c)) ws"

text \<open>
  \<^verbatim>\<open>ws.append(row)\<close> writes the values of \<open>row\<close> into the row after the current one,
  from column 1 on.
\<close>

fun append_from :: "nat \<Rightarrow> nat \<Rightarrow> cell_value list \<Rightarrow> worksheet \<Rightarrow> worksheet" where
  "append_from r c [] ws = ws"
| "append_from r c (v # vs) ws = append_from r (Suc c) vs (put_cell r c (new_cell v) ws)"

definition ws_append :: "cell_value list \<Rightarrow> worksheet \<Rightarrow> worksheet" where
  "ws_append vs ws =
     (let r = Suc (ws_current_row ws)
      in (append_from r 1 vs ws)\<lparr>ws_current_row := r\<rparr>)"


section \<open>Configuration\<close>

record colors =
  col_header :: string
  col_subheader :: string
  col_accent :: string

record config =
  company_name :: string
  report_title :: string
  output_directory :: string
  date_format :: string
  cfg_colors :: colors

definition default_config :: config where
  "default_config =
     \<lparr>company_name = ''Your Company Name'', report_title = ''Automated Report'',
      output_directory = ''reports'', date_format = ''%Y-%m-%d'',
      cfg_colors = \<lparr>col_header = ''366092'', col_subheader = ''5B9BD5'',
                     col_accent = ''70AD47''\<rparr>\<rparr>"


section \<open>Sheet formatting\<close>

text \<open>
  The header range is written \<^verbatim>\<open>f'{col_range}{row_num}'\<close> with \<open>col_range\<close> of the form
  \<^verbatim>\<open>A:X\<close>. The lookup is read as the cells of row \<open>row_num\<close> in the columns from the
  first letter to the second; a range of any other form is a \<open>ValueError\<close>.
\<close>

definition column_index_from_string :: "char \<Rightarrow> nat option" where
  "column_index_from_string c =
     (if is_upper c then Some ((of_char c :: nat) - 64)
      else if is_lower c then Some ((of_char c :: nat) - 96)
      else None)"

fun range_columns :: "string \<Rightarrow> py_error + (nat \<times> nat)" where
  "range_columns [a, s, b] =
     (if s = CHR '':'' then
        (case (column_index_from_string a, column_index_from_string b) of
           (Some lo, Some hi) \<Rightarrow> Inr (lo, hi)
         | _ \<Rightarrow> Inl ValueError)
      else Inl ValueError)"
| "range_columns _ = Inl ValueError"

definition header_cell :: "config \<Rightarrow> cell \<Rightarrow> cell" where
  "header_cell cfg x =
     x\<lparr>cfill := Some (col_header (cfg_colors cfg)),
       cfont := \<lparr>f_bold = True, f_italic = False, f_color = Some ''FFFFFF'', f_size = Some 12\<rparr>,
       calignment := \<lparr>a_horizontal = Some ''center'', a_vertical = Some ''center''\<rparr>,
       cborder := thin_border\<rparr>"

definition apply_header_style :: "config \<Rightarrow> nat \<Rightarrow> string \<Rightarrow> worksheet \<Rightarrow> py_error + worksheet" where
  "apply_header_style cfg row_num col_range ws =
     (case range_columns col_range of
        Inl e \<Rightarrow> Inl e
      | Inr (lo, hi) \<Rightarrow>
          Inr (fold (\<lambda>c. update_cell row_num c (header_cell cfg)) [lo..<Suc hi] ws))"

text \<open>
  \<^verbatim>\<open>_apply_data_formatting\<close>: every cell of the region gets the thin border and the
  centred alignment; the cells of a row whose number is even get the grey fill.
\<close>

definition data_cell :: "nat \<Rightarrow> cell \<Rightarrow> cell" where
  "data_cell row x =
     (let y = x\<lparr>cborder := thin_border,
                calignment := \<lparr>a_horizontal = Some ''center'', a_vertical = Some ''center''\<rparr>\<rparr>
      in if row mod 2 = 0 then y\<lparr>cfill := Some ''F2F2F2''\<rparr> else y)"

definition format_row :: "nat \<Rightarrow> nat \<Rightarrow> nat \<Rightarrow> worksheet \<Rightarrow> worksheet" where
  "format_row row start_col end_col ws =
     fold (\<lambda>col. update_cell row col (data_cell row)) [start_col..<Suc end_col] ws"

definition apply_data_formatting :: "nat \<Rightarrow> nat \<Rightarrow> nat \<Rightarrow> nat \<Rightarrow> worksheet \<Rightarrow> worksheet" where
  "apply_data_formatting start_row end_row start_col end_col ws =
     fold (\<lambda>row. format_row row start_col end_col) [start_row..<Suc end_row] ws"


section \<open>The runtime environment\<close>

text \<open>
  What the program takes from its surroundings: the clock (through \<^verbatim>\<open>strftime\<close>), the
  rendering of a float by \<^verbatim>\<open>str()\<close>, the random generator's raw stream, the date ranges
  of the sample data (\<^verbatim>\<open>pd.date_range\<close> up to now), and whether the output directory
  can be made and the output file written.
\<close>

record env =
  now_strftime :: "string \<Rightarrow> string"
  float_repr :: "rat \<Rightarrow> string"
  rng_raw :: "nat \<Rightarrow> nat"
  daily_dates :: "cell_value list"
  weekly_dates :: "cell_value list"
  makedirs_ok :: "string \<Rightarrow> bool"
  can_write :: "string \<Rightarrow> bool"

text \<open>\<^verbatim>\<open>str(v)\<close>; \<open>None\<close> when it raises.\<close>

fun py_str :: "env \<Rightarrow> cell_value \<Rightarrow> string option" where
  "py_str env NoneV = Some ''None''"
| "py_str env (IntV i) = Some (str_int i)"
| "py_str env (FloatV x) = Some (float_repr env x)"
| "py_str env (StrV s) = Some s"
| "py_str env (BoolV b) = Some (if b then ''True'' else ''False'')"
| "py_str env (OtherV so) = so"


section \<open>Data sheets\<close>

record workbook =
  wb_sheets :: "worksheet list"

text \<open>\<^verbatim>\<open>Workbook()\<close> with its default sheet removed.\<close>

definition empty_workbook :: workbook where
  "empty_workbook = \<lparr>wb_sheets = []\<rparr>"

definition alphabet :: string where
  "alphabet = ''ABCDEFGHIJKLMNOPQRSTUVWXYZ''"

text \<open>The letter of the last header column: \<^verbatim>\<open>"ABC...Z"[len(data.columns)-1]\<close>.\<close>

definition last_column_letter :: "nat \<Rightarrow> py_error + char" where
  "last_column_letter ncols = py_index alphabet (int ncols - 1)"

text \<open>
  The width loop: the longest \<^verbatim>\<open>str(cell.value)\<close> of a column, a value whose
  \<^verbatim>\<open>str()\<close> raises being passed over by the bare \<^verbatim>\<open>except\<close>.
\<close>

definition longer :: "env \<Rightarrow> cell \<Rightarrow> nat \<Rightarrow> nat" where
  "longer env x max_length =
     (case py_str env (cvalue x) of
        None \<Rightarrow> max_length
      | Some s \<Rightarrow> if length s > max_length then length s else max_length)"

definition max_length_of :: "env \<Rightarrow> cell list \<Rightarrow> nat" where
  "max_length_of env column = fold (longer env) column 0"

definition column_cells :: "worksheet \<Rightarrow> nat \<Rightarrow> cell list" where
  "column_cells ws c = map (\<lambda>r. get_cell ws r c) [1..<Suc (ws_max_row ws)]"

definition adjusted_width :: "env \<Rightarrow> worksheet \<Rightarrow> nat \<Rightarrow> nat" where
  "adjusted_width env ws c = min (max_length_of env (column_cells ws c) + 2) 50"

definition auto_width :: "env \<Rightarrow> worksheet \<Rightarrow> worksheet" where
  "auto_width env ws =
     fold (\<lambda>c w. w\<lparr>ws_width := (ws_width w)(c \<mapsto> adjusted_width env ws c)\<rparr>)
       [1..<Suc (ws_max_column ws)] ws"

text \<open>
  \<^verbatim>\<open>create_data_sheet\<close>. The sheet is created under the requested title at the end of
  the workbook and then filled in place; the model fills it and appends the result. The
  title is the one passed to \<^verbatim>\<open>create_sheet\<close>: what the library does with a title
  that is already taken or not valid in a workbook is not modelled.
\<close>

definition data_sheet :: "config \<Rightarrow> env \<Rightarrow> dataframe \<Rightarrow> string \<Rightarrow> py_error + worksheet" where
  "data_sheet cfg env data sheet_name =
     (let ws = fold ws_append (dataframe_to_rows data) (empty_sheet sheet_name)
      in case last_column_letter (length (df_columns data)) of
           Inl e \<Rightarrow> Inl e
         | Inr letter \<Rightarrow>
             (case apply_header_style cfg 1 (''A:'' @ [letter]) ws of
                Inl e \<Rightarrow> Inl e
              | Inr ws1 \<Rightarrow>
                  Inr (auto_width env
                        (apply_data_formatting 2 (length (df_rows data) + 1) 1
                           (length (df_columns data)) ws1))))"

definition create_data_sheet ::
  "config \<Rightarrow> env \<Rightarrow> dataframe \<Rightarrow> string \<Rightarrow> workbook \<Rightarrow> py_error + workbook" where
  "create_data_sheet cfg env data sheet_name wb =
     (case data_sheet cfg env data sheet_name of
        Inl e \<Rightarrow> Inl e
      | Inr ws \<Rightarrow> Inr (wb\<lparr>wb_sheets := wb_sheets wb @ [ws]\<rparr>))"


section \<open>Numbers\<close>

text \<open>
  A float is a finite binary64 number, kept as its exact rational value. \<open>fl\<close> rounds
  a rational to the nearest binary64 number, ties to even, with the gradual underflow
  of the format (overflow to infinity is outside the model). \<open>ilog2 x\<close> is the
  exponent \<open>e\<close> with \<open>2^e \<le> |x| < 2^(e+1)\<close>.
\<close>

definition round_half_even :: "rat \<Rightarrow> int" where
  "round_half_even x =
     (let p = fst (quotient_of x); q = snd (quotient_of x);
          f = p div q; r = p mod q
      in if 2 * r < q then f
         else if q < 2 * r then f + 1
         else if even f then f else f + 1)"

definition pow2 :: "int \<Rightarrow> rat" where
  "pow2 e = (if 0 \<le> e then 2 ^ nat e else 1 / 2 ^ nat (- e))"

function bit_length :: "int \<Rightarrow> int" where
  "bit_length n = (if n \<le> 0 then 0 else 1 + bit_length (n div 2))"
  by pat_completeness auto
termination
  by (relation "measure nat") auto

declare bit_length.simps [simp del]

definition ilog2 :: "rat \<Rightarrow> int" where
  "ilog2 x =
     (let p = fst (quotient_of \<bar>x\<bar>); q = snd (quotient_of \<bar>x\<bar>);
          a = bit_length p - 1; b = bit_length q - 1
      in if of_int q * pow2 a \<le> of_int p * pow2 b then a - b else a - b - 1)"

definition fl :: "rat \<Rightarrow> rat" where
  "fl x =
     (if x = 0 then 0
      else let e = max (ilog2 x - 52) (- 1074)
           in of_int (round_half_even (x / pow2 e)) * pow2 e)"

text \<open>
  The result of an aggregation: a NumPy integer, a float, or the float NaN (the mean of
  an empty column).
\<close>

datatype number = IntN int | FloatN rat | NaN

fun number_value :: "number \<Rightarrow> cell_value" where
  "number_value (IntN i) = IntV i"
| "number_value (FloatN x) = FloatV x"
| "number_value NaN = OtherV (Some ''nan'')"

text \<open>
  Fixed-point formatting (format type \<^verbatim>\<open>f\<close>) of a float with \<open>p\<close> decimals: the
  exact value is rounded to \<open>p\<close> decimals, ties to even; with the \<^verbatim>\<open>,\<close> option the
  digits before the point are grouped in threes.
\<close>

fun group_rev :: "string \<Rightarrow> string" where
  "group_rev (a # b # c # d # rest) = a # b # c # CHR '','' # group_rev (d # rest)"
| "group_rev ds = ds"

definition group_thousands :: "string \<Rightarrow> string" where
  "group_thousands ds = rev (group_rev (rev ds))"

definition zero_pad :: "nat \<Rightarrow> string \<Rightarrow> string" where
  "zero_pad w s = replicate (w - length s) (CHR ''0'') @ s"

definition format_fixed :: "nat \<Rightarrow> bool \<Rightarrow> rat \<Rightarrow> string" where
  "format_fixed p grouped x =
     (let n = round_half_even (\<bar>x\<bar> * 10 ^ p);
          whole = digits_of (n div 10 ^ p);
          frac = zero_pad p (digits_of (n mod 10 ^ p))
      in (if x < 0 then ''-'' else '''')
         @ (if grouped then group_thousands whole else whole)
         @ (if p = 0 then '''' else CHR ''.'' # frac))"

text \<open>\<^verbatim>\<open>f"{v:,.2f}"\<close> and \<^verbatim>\<open>f"{v:.1%}"\<close>; an integer is converted to a float first, and the
  percent format multiplies the float by 100 before it formats it.\<close>

fun format_2f :: "number \<Rightarrow> string" where
  "format_2f (IntN i) = format_fixed 2 True (fl (of_int i))"
| "format_2f (FloatN x) = format_fixed 2 True x"
| "format_2f NaN = ''nan''"

fun format_pct1 :: "number \<Rightarrow> string" where
  "format_pct1 (IntN i) = format_fixed 1 False (fl (fl (of_int i) * 100)) @ ''%''"
| "format_pct1 (FloatN x) = format_fixed 1 False (fl (x * 100)) @ ''%''"
| "format_pct1 NaN = ''nan%''"


section \<open>Columns and aggregations\<close>

text \<open>
  \<^verbatim>\<open>df[name]\<close> raises \<open>KeyError\<close> for an absent label; \<^verbatim>\<open>df[[a, b, c]]\<close> raises
  \<open>KeyError\<close> with the absent labels. \<^verbatim>\<open>data[key]\<close> on the bundle likewise.
\<close>

fun index_of :: "'a \<Rightarrow> 'a list \<Rightarrow> nat option" where
  "index_of x [] = None"
| "index_of x (y # ys) = (if x = y then Some 0 else map_option Suc (index_of x ys))"

definition get_column :: "dataframe \<Rightarrow> string \<Rightarrow> py_error + cell_value list" where
  "get_column df name =
     (case index_of name (df_columns df) of
        None \<Rightarrow> Inl (KeyError [name])
      | Some j \<Rightarrow> Inr (map (\<lambda>row. row ! j) (df_rows df)))"

definition check_columns :: "dataframe \<Rightarrow> string list \<Rightarrow> py_error + unit" where
  "check_columns df names =
     (case filter (\<lambda>n. n \<notin> set (df_columns df)) names of
        [] \<Rightarrow> Inr ()
      | missing \<Rightarrow> Inl (KeyError missing))"

definition get_dataset :: "(string \<times> dataframe) list \<Rightarrow> string \<Rightarrow> py_error + dataframe" where
  "get_dataset data key =
     (case map_of data key of None \<Rightarrow> Inl (KeyError [key]) | Some df \<Rightarrow> Inr df)"

text \<open>
  A column is an integer series when all its values are integers and a float series
  when they are integers and floats; the integers of a float series are converted.
  Aggregating any other column is reported as \<open>TypeError\<close>: such columns are outside
  what is modelled of pandas. Integer sums are taken in unbounded integers; the
  wrap-around of a 64-bit sum is outside the model as well.
\<close>

datatype series = IntS "int list" | FloatS "rat list"

fun as_int :: "cell_value \<Rightarrow> int option" where
  "as_int (IntV i) = Some i"
| "as_int _ = None"

fun as_float :: "cell_value \<Rightarrow> rat option" where
  "as_float (IntV i) = Some (fl (of_int i))"
| "as_float (FloatV x) = Some x"
| "as_float _ = None"

definition to_series :: "cell_value list \<Rightarrow> py_error + series" where
  "to_series vs =
     (case those (map as_int vs) of
        Some ints \<Rightarrow> Inr (IntS ints)
      | None \<Rightarrow>
          (case those (map as_float vs) of
             Some xs \<Rightarrow> Inr (FloatS xs)
           | None \<Rightarrow> Inl TypeError))"

text \<open>
  Float summation accumulates from left to right, rounding after every addition; the
  order in which NumPy adds the values of a long column is not modelled further.
\<close>

definition float_sum :: "rat list \<Rightarrow> rat" where
  "float_sum xs = fold (\<lambda>x acc. fl (acc + x)) xs 0"

fun series_sum :: "series \<Rightarrow> number" where
  "series_sum (IntS ints) = IntN (sum_list ints)"
| "series_sum (FloatS xs) = FloatN (float_sum xs)"

fun series_mean :: "series \<Rightarrow> number" where
  "series_mean (IntS ints) =
     (if ints = [] then NaN
      else FloatN (fl (float_sum (map (\<lambda>i. fl (of_int i)) ints) / of_nat (length ints))))"
| "series_mean (FloatS xs) =
     (if xs = [] then NaN else FloatN (fl (float_sum xs / of_nat (length xs))))"

text \<open>\<^verbatim>\<open>idxmax\<close>: the position of the first largest value; \<open>ValueError\<close> when there is none.\<close>

fun argmax_from :: "nat \<Rightarrow> 'a::linorder \<Rightarrow> nat \<Rightarrow> 'a list \<Rightarrow> nat" where
  "argmax_from best bv i [] = best"
| "argmax_from best bv i (x # xs) =
     (if bv < x then argmax_from i x (Suc i) xs else argmax_from best bv (Suc i) xs)"

definition idxmax :: "'a::linorder list \<Rightarrow> py_error + nat" where
  "idxmax xs = (case xs of [] \<Rightarrow> Inl ValueError | x # rest \<Rightarrow> Inr (argmax_from 0 x 1 rest))"

fun series_idxmax :: "series \<Rightarrow> py_error + nat" where
  "series_idxmax (IntS ints) = idxmax ints"
| "series_idxmax (FloatS xs) = idxmax xs"

text \<open>
  The sums of several columns form one series: of integers when every sum is an
  integer, of floats otherwise.
\<close>

fun number_int :: "number \<Rightarrow> int option" where
  "number_int (IntN i) = Some i"
| "number_int _ = None"

fun number_float :: "number \<Rightarrow> rat option" where
  "number_float (IntN i) = Some (fl (of_int i))"
| "number_float (FloatN x) = Some x"
| "number_float NaN = None"

definition numbers_idxmax :: "number list \<Rightarrow> py_error + nat" where
  "numbers_idxmax ns =
     (case those (map number_int ns) of
        Some ints \<Rightarrow> idxmax ints
      | None \<Rightarrow>
          (case those (map number_float ns) of
             Some xs \<Rightarrow> idxmax xs
           | None \<Rightarrow> Inl ValueError))"

definition column_sum :: "dataframe \<Rightarrow> string \<Rightarrow> py_error + number" where
  "column_sum df name =
     (case get_column df name of
        Inl e \<Rightarrow> Inl e
      | Inr vs \<Rightarrow> (case to_series vs of Inl e \<Rightarrow> Inl e | Inr s \<Rightarrow> Inr (series_sum s)))"

definition column_mean :: "dataframe \<Rightarrow> string \<Rightarrow> py_error + number" where
  "column_mean df name =
     (case get_column df name of
        Inl e \<Rightarrow> Inl e
      | Inr vs \<Rightarrow> (case to_series vs of Inl e \<Rightarrow> Inl e | Inr s \<Rightarrow> Inr (series_mean s)))"


section \<open>The key metrics\<close>

text \<open>Sequencing of steps that can raise: the first exception ends the computation.\<close>

fun and_then :: "'e + 'a \<Rightarrow> ('a \<Rightarrow> 'e + 'b) \<Rightarrow> 'e + 'b" where
  "and_then (Inl e) f = Inl e"
| "and_then (Inr x) f = f x"

text \<open>
  \<^verbatim>\<open>df[[a, b, c]].sum().idxmax()\<close>: the label, among the given ones, of the column with
  the largest sum, the first one on a tie.
\<close>

fun column_sums :: "dataframe \<Rightarrow> string list \<Rightarrow> py_error + number list" where
  "column_sums df [] = Inr []"
| "column_sums df (n # ns) =
     and_then (column_sum df n) (\<lambda>s. and_then (column_sums df ns) (\<lambda>ss. Inr (s # ss)))"

definition top_column :: "dataframe \<Rightarrow> string list \<Rightarrow> py_error + string" where
  "top_column df names =
     and_then (check_columns df names) (\<lambda>_.
     and_then (column_sums df names) (\<lambda>totals.
     and_then (numbers_idxmax totals) (\<lambda>i. Inr (names ! i))))"

text \<open>\<^verbatim>\<open>len(df[df[name] == s])\<close>: the number of rows whose value in the column is the string.\<close>

definition count_equal :: "dataframe \<Rightarrow> string \<Rightarrow> string \<Rightarrow> py_error + int" where
  "count_equal df name s =
     and_then (get_column df name) (\<lambda>vs. Inr (int (length (filter (\<lambda>v. v = StrV s) vs))))"

text \<open>\<^verbatim>\<open>df.loc[df[score].idxmax(), label]\<close> with the default index.\<close>

definition best_row_label :: "dataframe \<Rightarrow> string \<Rightarrow> string \<Rightarrow> py_error + cell_value" where
  "best_row_label df score label =
     and_then (get_column df score) (\<lambda>vs.
     and_then (to_series vs) (\<lambda>ser.
     and_then (series_idxmax ser) (\<lambda>i.
     and_then (get_column df label) (\<lambda>labels. Inr (labels ! i)))))"

definition daily_metrics ::
  "dataframe \<Rightarrow> dataframe \<Rightarrow> py_error + (string \<times> cell_value) list" where
  "daily_metrics sales_data customer_data =
     and_then (column_sum sales_data ''Total_Revenue'') (\<lambda>total_revenue.
     and_then (column_mean sales_data ''Total_Revenue'') (\<lambda>avg_daily_revenue.
     and_then (top_column sales_data [''Product_A'', ''Product_B'', ''Product_C'']) (\<lambda>top_product.
     let total_customers = int (length (df_rows customer_data))
     in and_then (count_equal customer_data ''Category'' ''Premium'') (\<lambda>premium.
          Inr [(''Total Revenue'', StrV (''$'' @ format_2f total_revenue)),
               (''Average Daily Revenue'', StrV (''$'' @ format_2f avg_daily_revenue)),
               (''Top Product'', StrV top_product),
               (''Total Customers'', IntV total_customers),
               (''Premium Customers'', IntV premium)]))))"

definition weekly_metrics ::
  "dataframe \<Rightarrow> dataframe \<Rightarrow> py_error + (string \<times> cell_value) list" where
  "weekly_metrics sales_data customer_data =
     and_then (column_sum sales_data ''Actual_Sales'') (\<lambda>total_sales.
     and_then (column_mean sales_data ''Customer_Retention'') (\<lambda>avg_performance.
     and_then (column_sum sales_data ''New_Customers'') (\<lambda>total_new_customers.
     and_then (best_row_label customer_data ''Performance_Score'' ''Department'') (\<lambda>best.
          Inr [(''Total Sales'', StrV (''$'' @ format_2f total_sales)),
               (''Average Retention Rate'', StrV (format_pct1 avg_performance)),
               (''Total New Customers'', number_value total_new_customers),
               (''Best Department'', best)]))))"

text \<open>
  The metrics part of \<^verbatim>\<open>create_summary_sheet\<close>: both data sets are looked up first, then
  the report type selects the metrics; every type other than \<^verbatim>\<open>"daily"\<close> takes the
  \<^verbatim>\<open>else\<close> branch.
\<close>

definition summary_metrics ::
  "string \<Rightarrow> (string \<times> dataframe) list \<Rightarrow> py_error + (string \<times> cell_value) list" where
  "summary_metrics report_type data =
     and_then (get_dataset data ''sales_data'') (\<lambda>sales_data.
     and_then (get_dataset data ''customer_data'') (\<lambda>customer_data.
       if report_type = ''daily'' then daily_metrics sales_data customer_data
       else weekly_metrics sales_data customer_data))"


section \<open>The summary sheet\<close>

definition set_value :: "nat \<Rightarrow> nat \<Rightarrow> cell_value \<Rightarrow> worksheet \<Rightarrow> worksheet" where
  "set_value r c v = update_cell r c (\<lambda>x. x\<lparr>cvalue := v\<rparr>)"

definition set_font :: "nat \<Rightarrow> nat \<Rightarrow> font \<Rightarrow> worksheet \<Rightarrow> worksheet" where
  "set_font r c f = update_cell r c (\<lambda>x. x\<lparr>cfont := f\<rparr>)"

definition set_alignment :: "nat \<Rightarrow> nat \<Rightarrow> alignment \<Rightarrow> worksheet \<Rightarrow> worksheet" where
  "set_alignment r c a = update_cell r c (\<lambda>x. x\<lparr>calignment := a\<rparr>)"

definition set_border :: "nat \<Rightarrow> nat \<Rightarrow> border \<Rightarrow> worksheet \<Rightarrow> worksheet" where
  "set_border r c b = update_cell r c (\<lambda>x. x\<lparr>cborder := b\<rparr>)"

text \<open>Merging records the range; the cells inside it are left as they are.\<close>

definition merge_cells :: "string \<Rightarrow> worksheet \<Rightarrow> worksheet" where
  "merge_cells rng ws = ws\<lparr>ws_merged := ws_merged ws @ [rng]\<rparr>"

definition summary_title :: "config \<Rightarrow> string \<Rightarrow> string" where
  "summary_title cfg report_type =
     company_name cfg @ '' - '' @ py_title report_type @ '' Report Summary''"

definition metrics_start_row :: nat where
  "metrics_start_row = 4"

text \<open>The title, the date and the section header, written before the data is looked at.\<close>

definition summary_head :: "config \<Rightarrow> env \<Rightarrow> string \<Rightarrow> worksheet" where
  "summary_head cfg env report_type =
     (set_font metrics_start_row 1 (default_font\<lparr>f_bold := True, f_size := Some 14\<rparr>)
      (set_value metrics_start_row 1 (StrV ''Key Metrics'')
      (set_font 2 1 (default_font\<lparr>f_italic := True\<rparr>)
      (set_value 2 1 (StrV (''Generated: '' @ now_strftime env (date_format cfg)))
      (merge_cells ''A1:F1''
      (set_alignment 1 1 (default_alignment\<lparr>a_horizontal := Some ''center''\<rparr>)
      (set_font 1 1 (default_font\<lparr>f_bold := True, f_size := Some 16\<rparr>)
      (set_value 1 1 (StrV (summary_title cfg report_type))
      (empty_sheet ''Summary'')))))))))"

text \<open>One metric per row from row 5 on: the label in column A (bold), the value in column B.\<close>

definition write_metric :: "nat \<times> string \<times> cell_value \<Rightarrow> worksheet \<Rightarrow> worksheet" where
  "write_metric entry ws =
     (case entry of (i, metric, v) \<Rightarrow>
        set_font i 1 (default_font\<lparr>f_bold := True\<rparr>)
          (set_value i 2 v (set_value i 1 (StrV metric) ws)))"

definition write_metrics :: "(string \<times> cell_value) list \<Rightarrow> worksheet \<Rightarrow> worksheet" where
  "write_metrics metrics ws =
     fold write_metric
       (zip [metrics_start_row + 1..<metrics_start_row + 1 + length metrics] metrics) ws"

definition border_row :: "nat \<Rightarrow> worksheet \<Rightarrow> worksheet" where
  "border_row r ws = fold (\<lambda>c. set_border r c thin_border) [1..<Suc 2] ws"

definition border_metrics :: "nat \<Rightarrow> worksheet \<Rightarrow> worksheet" where
  "border_metrics n ws =
     fold border_row [metrics_start_row + 1..<Suc (metrics_start_row + n)] ws"

definition create_summary_sheet ::
  "config \<Rightarrow> env \<Rightarrow> (string \<times> dataframe) list \<Rightarrow> string \<Rightarrow> workbook \<Rightarrow> py_error + workbook" where
  "create_summary_sheet cfg env data report_type wb =
     (let ws = summary_head cfg env report_type
      in and_then (summary_metrics report_type data) (\<lambda>metrics.
           Inr (wb\<lparr>wb_sheets := wb_sheets wb
                      @ [border_metrics (length metrics) (write_metrics metrics ws)]\<rparr>)))"


section \<open>Sample data\<close>

text \<open>
  \<^verbatim>\<open>pd.DataFrame\<close> of a dictionary of columns: the columns must have one length.
\<close>

definition data_frame :: "(string \<times> cell_value list) list \<Rightarrow> py_error + dataframe" where
  "data_frame cols =
     (let n = (case cols of [] \<Rightarrow> 0 | c # _ \<Rightarrow> length (snd c))
      in if list_all (\<lambda>c. length (snd c) = n) cols
         then Inr \<lparr>df_columns = map fst cols,
                   df_rows = map (\<lambda>i. map (\<lambda>c. snd c ! i) cols) [0..<n]\<rparr>
         else Inl ValueError)"

text \<open>
  The draws of the random generator, from position \<open>k\<close> of its raw stream on:
  \<^verbatim>\<open>randint(lo, hi, n)\<close>, \<^verbatim>\<open>uniform(lo, hi, n)\<close> and \<^verbatim>\<open>choice(options, n)\<close>.
\<close>

definition randint :: "env \<Rightarrow> nat \<Rightarrow> int \<Rightarrow> int \<Rightarrow> nat \<Rightarrow> cell_value list" where
  "randint env k lo hi n = map (\<lambda>j. IntV (lo + int (rng_raw env (k + j)) mod (hi - lo))) [0..<n]"

definition uniform :: "env \<Rightarrow> nat \<Rightarrow> rat \<Rightarrow> rat \<Rightarrow> nat \<Rightarrow> cell_value list" where
  "uniform env k lo hi n =
     map (\<lambda>j. FloatV (fl (lo + (hi - lo) * of_nat (rng_raw env (k + j) mod 2 ^ 53) / 2 ^ 53)))
       [0..<n]"

definition choice :: "env \<Rightarrow> nat \<Rightarrow> string list \<Rightarrow> nat \<Rightarrow> cell_value list" where
  "choice env k options n =
     map (\<lambda>j. StrV (options ! (rng_raw env (k + j) mod length options))) [0..<n]"

definition generate_sample_data ::
  "env \<Rightarrow> string \<Rightarrow> py_error + (string \<times> dataframe) list" where
  "generate_sample_data env report_type =
     (if report_type = ''daily'' then
        (let dates = daily_dates env; n = length dates
         in and_then (data_frame
              [(''Date'', dates),
               (''Product_A'', randint env 0 50 200 n),
               (''Product_B'', randint env n 30 150 n),
               (''Product_C'', randint env (2 * n) 20 100 n),
               (''Total_Revenue'', randint env (3 * n) 1000 5000 n)]) (\<lambda>sales_data.
            and_then (data_frame
              [(''Customer_ID'', map (\<lambda>i. StrV (''CUST_'' @ zero_pad 4 (str_int (int i)))) [1..<101]),
               (''Customer_Name'', map (\<lambda>i. StrV (''Customer '' @ str_int (int i))) [1..<101]),
               (''Total_Orders'', randint env (4 * n) 1 20 100),
               (''Total_Spent'', randint env (4 * n + 100) 100 10000 100),
               (''Category'', choice env (4 * n + 200) [''Premium'', ''Standard'', ''Basic''] 100)])
              (\<lambda>customer_data.
                 Inr [(''sales_data'', sales_data), (''customer_data'', customer_data)])))
      else
        (let weeks = weekly_dates env; n = length weeks;
             departments = [''Sales'', ''Marketing'', ''Support'', ''Operations'']
         in and_then (data_frame
              [(''Week'', weeks),
               (''Sales_Target'', randint env 0 10000 20000 n),
               (''Actual_Sales'', randint env n 8000 22000 n),
               (''New_Customers'', randint env (2 * n) 20 100 n),
               (''Customer_Retention'', uniform env (3 * n) (7 / 10) (95 / 100) n)]) (\<lambda>sales_data.
            and_then (data_frame
              [(''Department'', map StrV departments),
               (''Budget'', map IntV [50000, 30000, 25000, 40000]),
               (''Actual_Spend'', randint env (4 * n) 20000 55000 (length departments)),
               (''Performance_Score'', uniform env (4 * n + 4) (6 / 10) 1 (length departments)),
               (''Team_Size'', map IntV [10, 8, 12, 15])])
              (\<lambda>customer_data.
                 Inr [(''sales_data'', sales_data), (''customer_data'', customer_data)]))))"


section \<open>The report\<close>

definition humanize :: "string \<Rightarrow> string" where
  "humanize sheet_name = py_title (replace_char (CHR ''_'') (CHR '' '') sheet_name)"

fun create_data_sheets ::
  "config \<Rightarrow> env \<Rightarrow> (string \<times> dataframe) list \<Rightarrow> workbook \<Rightarrow> py_error + workbook" where
  "create_data_sheets cfg env [] wb = Inr wb"
| "create_data_sheets cfg env (item # items) wb =
     and_then (create_data_sheet cfg env (snd item) (humanize (fst item)) wb)
       (create_data_sheets cfg env items)"

text \<open>\<^verbatim>\<open>os.path.join(a, b)\<close> on POSIX.\<close>

definition path_join :: "string \<Rightarrow> string \<Rightarrow> string" where
  "path_join a b =
     (if b \<noteq> [] \<and> hd b = CHR ''/'' then b
      else if a = [] \<or> last a = CHR ''/'' then a @ b
      else a @ ''/'' @ b)"

definition report_filename :: "env \<Rightarrow> string \<Rightarrow> string" where
  "report_filename env report_type =
     report_type @ ''_report_'' @ now_strftime env ''%Y%m%d_%H%M%S'' @ ''.xlsx''"

text \<open>
  \<^verbatim>\<open>generate_report\<close>. A successful run returns the path of the file together with the
  workbook that was saved there; a run that raises has saved nothing, the save being
  the last step. The bundle is the dictionary's items in insertion order.
\<close>

definition generate_report ::
  "config \<Rightarrow> env \<Rightarrow> string \<Rightarrow> (string \<times> dataframe) list option \<Rightarrow> py_error + (string \<times> workbook)" where
  "generate_report cfg env report_type data_arg =
     (if \<not> makedirs_ok env (output_directory cfg) then Inl OSError
      else
        and_then (case data_arg of
                    None \<Rightarrow> generate_sample_data env report_type
                  | Some d \<Rightarrow> Inr d) (\<lambda>data.
        and_then (create_summary_sheet cfg env data report_type empty_workbook) (\<lambda>wb1.
        and_then (create_data_sheets cfg env data wb1) (\<lambda>wb2.
          let filepath = path_join (output_directory cfg) (report_filename env report_type)
          in if can_write env filepath then Inr (filepath, wb2) else Inl OSError))))"


section \<open>Notions used in the statements, and sample inputs\<close>



definition raw_sheet :: "dataframe \<Rightarrow> string \<Rightarrow> worksheet" where
  "raw_sheet df name = fold ws_append (dataframe_to_rows df) (empty_sheet name)"

definition demo_env :: env where
  "demo_env = \<lparr>now_strftime = (\<lambda>f. if f = ''%Y%m%d_%H%M%S'' then ''20240105_093000'' else ''2024-01-05''),
     float_repr = (\<lambda>x. ''0.5''), rng_raw = (\<lambda>i. 7 * i + 3),
     daily_dates = replicate 31 (OtherV (Some ''2024-01-05 09:30:00'')),
     weekly_dates = replicate 12 (OtherV (Some ''2024-01-07 09:30:00'')),
     makedirs_ok = (\<lambda>p. True), can_write = (\<lambda>p. True)\<rparr>"








definition customers100 :: dataframe where
  "customers100 = \<lparr>df_columns = [''Customer_ID'', ''Category''],
     df_rows = replicate 40 [StrV ''CUST_0001'', StrV ''Premium'']
             @ replicate 60 [StrV ''CUST_0002'', StrV ''Basic'']\<rparr>"



definition departments :: dataframe where
  "departments = \<lparr>df_columns = [''Department'', ''Performance_Score''],
     df_rows = [[StrV ''Sales'', FloatV (1 / 2)], [StrV ''Support'', FloatV (3 / 4)]]\<rparr>"


definition required_sales_columns :: "string \<Rightarrow> string list" where
  "required_sales_columns report_type =
     (if report_type = ''daily'' then [''Total_Revenue'', ''Product_A'', ''Product_B'', ''Product_C'']
      else [''Actual_Sales'', ''Customer_Retention'', ''New_Customers''])"

definition required_customer_columns :: "string \<Rightarrow> string list" where
  "required_customer_columns report_type =
     (if report_type = ''daily'' then [''Category''] else [''Performance_Score'', ''Department''])"

definition absent_columns :: "(string \<times> dataframe) list \<Rightarrow> string \<Rightarrow> string list \<Rightarrow> string list" where
  "absent_columns data key names =
     (case map_of data key of
        None \<Rightarrow> [key]
      | Some df \<Rightarrow> filter (\<lambda>n. n \<notin> set (df_columns df)) names)"

definition absent_names :: "string \<Rightarrow> (string \<times> dataframe) list \<Rightarrow> string list" where
  "absent_names report_type data =
     absent_columns data ''sales_data'' (required_sales_columns report_type)
     @ absent_columns data ''customer_data'' (required_customer_columns report_type)"

definition score_position :: "dataframe \<Rightarrow> string \<Rightarrow> py_error + nat" where
  "score_position df score =
     and_then (get_column df score) (\<lambda>vs. and_then (to_series vs) series_idxmax)"

definition aggregations_defined :: "string \<Rightarrow> dataframe \<Rightarrow> dataframe \<Rightarrow> bool" where
  "aggregations_defined report_type sales customers =
     (if report_type = ''daily'' then
        (''Total_Revenue'' \<in> set (df_columns sales) \<longrightarrow>
           \<not> isl (column_sum sales ''Total_Revenue''))
        \<and> (set [''Product_A'', ''Product_B'', ''Product_C''] \<subseteq> set (df_columns sales) \<longrightarrow>
           \<not> isl (top_column sales [''Product_A'', ''Product_B'', ''Product_C'']))
      else
        (\<forall>n \<in> set [''Actual_Sales'', ''Customer_Retention'', ''New_Customers''].
           n \<in> set (df_columns sales) \<longrightarrow> \<not> isl (column_sum sales n))
        \<and> (''Performance_Score'' \<in> set (df_columns customers) \<longrightarrow>
           \<not> isl (score_position customers ''Performance_Score'')))"

definition sales_no_revenue :: dataframe where
  "sales_no_revenue = \<lparr>df_columns = [''Date'', ''Product_A'', ''Product_B'', ''Product_C''],
     df_rows = [[OtherV (Some ''2024-01-05 00:00:00''), IntV 60, IntV 80, IntV 40]]\<rparr>"

definition no_revenue_bundle :: "(string \<times> dataframe) list" where
  "no_revenue_bundle = [(''sales_data'', sales_no_revenue), (''customer_data'', customers100)]"




definition is_number :: "cell_value \<Rightarrow> bool" where
  "is_number v = (as_float v \<noteq> None)"





section \<open>Properties\<close>

subsection \<open>The cell store\<close>

lemma get_cell_put:
  "get_cell (put_cell r c x ws) r' c' = (if r' = r \<and> c' = c then x else get_cell ws r' c')"
  by (simp add: get_cell_def put_cell_def)






lemma get_cell_append_from:
  "get_cell (append_from r c vs ws) r' c' =
     (if r' = r \<and> c \<le> c' \<and> c' < c + length vs then new_cell (vs ! (c' - c))
      else get_cell ws r' c')"
proof (induction vs arbitrary: c ws)
  case Nil
  show ?case by auto
next
  case (Cons v vs)
  show ?case
    by (auto simp: Cons.IH get_cell_put nth_Cons' Suc_diff_le)
qed

lemma current_row_append_from [simp]:
  "ws_current_row (append_from r c vs ws) = ws_current_row ws"
  by (induction vs arbitrary: c ws) (auto simp: put_cell_def)

lemma current_row_fold_append:
  "ws_current_row (fold ws_append rows ws) = ws_current_row ws + length rows"
  by (induction rows arbitrary: ws) (auto simp: ws_append_def Let_def)

lemma get_cell_current_row [simp]:
  "get_cell (ws\<lparr>ws_current_row := k\<rparr>) r c = get_cell ws r c"
  by (simp add: get_cell_def)

lemma get_cell_ws_append:
  "get_cell (ws_append vs ws) r c =
     (if r = Suc (ws_current_row ws) \<and> 1 \<le> c \<and> c \<le> length vs then new_cell (vs ! (c - 1))
      else get_cell ws r c)"
  by (auto simp: ws_append_def Let_def get_cell_append_from)

lemma get_cell_fold_append:
  "get_cell (fold ws_append rows ws) r c =
     (if ws_current_row ws < r \<and> r \<le> ws_current_row ws + length rows
         \<and> 1 \<le> c \<and> c \<le> length (rows ! (r - ws_current_row ws - 1))
      then new_cell (rows ! (r - ws_current_row ws - 1) ! (c - 1))
      else get_cell ws r c)"
proof (induction rows arbitrary: ws)
  case Nil
  show ?case by auto
next
  case (Cons vs rows)
  have cur: "ws_current_row (ws_append vs ws) = Suc (ws_current_row ws)"
    by (simp add: ws_append_def Let_def)
  show ?case
    by (auto simp: Cons.IH cur get_cell_ws_append nth_Cons' Suc_diff_le)
qed


subsection \<open>Sheet extent\<close>

lemma max_row_update [simp]:
  "ws_max_row (update_cell r c f ws) = max (ws_max_row ws) r"
  by (simp add: update_cell_def put_cell_def)

lemma max_column_update [simp]:
  "ws_max_column (update_cell r c f ws) = max (ws_max_column ws) c"
  by (simp add: update_cell_def put_cell_def)













lemma current_row_ws_append [simp]:
  "ws_current_row (ws_append vs ws) = Suc (ws_current_row ws)"
  by (simp add: ws_append_def Let_def)




subsection \<open>The header range\<close>

lemma alphabet_upt: "alphabet = map (\<lambda>k. char_of (65 + k)) [0..<26]"
  by code_simp

lemma length_alphabet [simp]: "length alphabet = 26"
  by (simp add: alphabet_upt)






subsection \<open>Column widths\<close>

lemma auto_width_fold:
  "ws_cells (fold (\<lambda>c w. w\<lparr>ws_width := (ws_width w)(c \<mapsto> g c)\<rparr>) cs ws) = ws_cells ws
   \<and> ws_title (fold (\<lambda>c w. w\<lparr>ws_width := (ws_width w)(c \<mapsto> g c)\<rparr>) cs ws) = ws_title ws
   \<and> ws_max_row (fold (\<lambda>c w. w\<lparr>ws_width := (ws_width w)(c \<mapsto> g c)\<rparr>) cs ws) = ws_max_row ws
   \<and> ws_max_column (fold (\<lambda>c w. w\<lparr>ws_width := (ws_width w)(c \<mapsto> g c)\<rparr>) cs ws) = ws_max_column ws
   \<and> ws_width (fold (\<lambda>c w. w\<lparr>ws_width := (ws_width w)(c \<mapsto> g c)\<rparr>) cs ws) k =
       (if k \<in> set cs then Some (g k) else ws_width ws k)"
  by (induction cs arbitrary: ws) auto

lemma get_cell_auto_width [simp]: "get_cell (auto_width env ws) r c = get_cell ws r c"
  by (simp add: get_cell_def auto_width_def auto_width_fold)

lemma title_auto_width [simp]: "ws_title (auto_width env ws) = ws_title ws"
  by (simp add: auto_width_def auto_width_fold)

lemma max_row_auto_width [simp]: "ws_max_row (auto_width env ws) = ws_max_row ws"
  by (simp add: auto_width_def auto_width_fold)

lemma max_column_auto_width [simp]: "ws_max_column (auto_width env ws) = ws_max_column ws"
  by (simp add: auto_width_def auto_width_fold)


lemma adjusted_width_auto_width [simp]:
  "adjusted_width env (auto_width env' ws) c = adjusted_width env ws c"
  by (simp add: adjusted_width_def column_cells_def)





subsection \<open>The cells of a data sheet\<close>

lemma get_cell_empty [simp]: "get_cell (empty_sheet name) r c = new_cell NoneV"
  by (simp add: get_cell_def empty_sheet_def)

lemma get_cell_raw_sheet:
  "get_cell (raw_sheet df name) r c =
     (if 1 \<le> r \<and> r \<le> Suc (length (df_rows df)) \<and> 1 \<le> c
         \<and> c \<le> length (dataframe_to_rows df ! (r - 1))
      then new_cell (dataframe_to_rows df ! (r - 1) ! (c - 1))
      else new_cell NoneV)"
proof -
  have "ws_current_row (empty_sheet name) = 0"
    by (simp add: empty_sheet_def)
  moreover have "length (dataframe_to_rows df) = Suc (length (df_rows df))"
    by (simp add: dataframe_to_rows_def)
  ultimately show ?thesis
    unfolding raw_sheet_def get_cell_fold_append by auto
qed









lemma raw_sheet_fill [simp]: "cfill (get_cell (raw_sheet df name) r c) = None"
  by (simp add: get_cell_raw_sheet new_cell_def)











lemma cvalue_header_cell [simp]: "cvalue (header_cell cfg x) = cvalue x"
  by (simp add: header_cell_def)

lemma cvalue_data_cell [simp]: "cvalue (data_cell r x) = cvalue x"
  by (simp add: data_cell_def Let_def)







subsection \<open>Sheet titles\<close>

lemma title_update_cell [simp]: "ws_title (update_cell r c f ws) = ws_title ws"
  by (simp add: update_cell_def put_cell_def)

lemma title_setters [simp]:
  "ws_title (set_value r c v ws) = ws_title ws"
  "ws_title (set_font r c f ws) = ws_title ws"
  "ws_title (set_alignment r c a ws) = ws_title ws"
  "ws_title (set_border r c b ws) = ws_title ws"
  "ws_title (merge_cells rng ws) = ws_title ws"
  by (simp_all add: set_value_def set_font_def set_alignment_def set_border_def merge_cells_def)

lemma title_summary_head [simp]: "ws_title (summary_head cfg env rt) = ''Summary''"
  by (simp add: summary_head_def empty_sheet_def)

lemma title_write_metrics [simp]: "ws_title (write_metrics ms ws) = ws_title ws"
proof -
  have "ws_title (fold write_metric es ws) = ws_title ws" for es
    by (induction es arbitrary: ws) (auto simp: write_metric_def)
  then show ?thesis by (simp add: write_metrics_def)
qed

lemma title_border_metrics [simp]: "ws_title (border_metrics n ws) = ws_title ws"
proof -
  have row: "ws_title (fold (\<lambda>c. set_border r c thin_border) cs w) = ws_title w" for r cs w
    by (induction cs arbitrary: w) auto
  have "ws_title (fold border_row rs ws) = ws_title ws" for rs
    by (induction rs arbitrary: ws) (auto simp: border_row_def row simp del: upt_Suc)
  then show ?thesis by (simp add: border_metrics_def del: upt_Suc)
qed

lemma and_then_Inr:
  "and_then m f = Inr y \<longleftrightarrow> (\<exists>x. m = Inr x \<and> f x = Inr y)"
  by (cases m) auto

lemma and_then_Inl:
  "and_then m f = Inl e \<longleftrightarrow> m = Inl e \<or> (\<exists>x. m = Inr x \<and> f x = Inl e)"
  by (cases m) auto










subsection \<open>Formatting of particular values\<close>





lemma get_dataset_None: "map_of data key = None \<Longrightarrow> get_dataset data key = Inl (KeyError [key])"
  by (simp add: get_dataset_def)





subsection \<open>Lookups\<close>

lemma index_of_None: "index_of x ys = None \<longleftrightarrow> x \<notin> set ys"
  by (induction ys) auto

lemma get_column_absent:
  "name \<notin> set (df_columns df) \<Longrightarrow> get_column df name = Inl (KeyError [name])"
  using index_of_None [of name "df_columns df"] by (simp add: get_column_def)

lemma get_column_present:
  "name \<in> set (df_columns df) \<Longrightarrow> \<exists>vs. get_column df name = Inr vs"
  using index_of_None [of name "df_columns df"]
  by (cases "index_of name (df_columns df)") (auto simp: get_column_def)

lemma get_column_Inl:
  "get_column df name = Inl e \<Longrightarrow> e = KeyError [name] \<and> name \<notin> set (df_columns df)"
  using index_of_None [of name "df_columns df"]
  by (cases "index_of name (df_columns df)") (auto simp: get_column_def)

lemma get_column_Inr:
  "get_column df name = Inr vs \<Longrightarrow> name \<in> set (df_columns df)"
  using index_of_None [of name "df_columns df"]
  by (cases "index_of name (df_columns df)") (auto simp: get_column_def)

lemma column_sum_absent:
  "name \<notin> set (df_columns df) \<Longrightarrow> column_sum df name = Inl (KeyError [name])"
  by (simp add: column_sum_def get_column_absent)

lemma column_mean_absent:
  "name \<notin> set (df_columns df) \<Longrightarrow> column_mean df name = Inl (KeyError [name])"
  by (simp add: column_mean_def get_column_absent)

lemma column_sum_Inr:
  "column_sum df name = Inr s \<Longrightarrow> name \<in> set (df_columns df)"
  by (auto simp: column_sum_def split: sum.splits dest: get_column_Inr)

lemma column_mean_Inr:
  "column_mean df name = Inr s \<Longrightarrow> name \<in> set (df_columns df)"
  by (auto simp: column_mean_def split: sum.splits dest: get_column_Inr)

lemma to_series_Inl: "to_series vs = Inl e \<Longrightarrow> e = TypeError"
  by (auto simp: to_series_def split: option.splits)

lemma column_sum_KeyError:
  "column_sum df name = Inl (KeyError ks) \<Longrightarrow> ks = [name] \<and> name \<notin> set (df_columns df)"
  by (auto simp: column_sum_def split: sum.splits dest: get_column_Inl to_series_Inl)

lemma column_mean_KeyError:
  "column_mean df name = Inl (KeyError ks) \<Longrightarrow> ks = [name] \<and> name \<notin> set (df_columns df)"
  by (auto simp: column_mean_def split: sum.splits dest: get_column_Inl to_series_Inl)

lemma column_mean_defined:
  "\<not> isl (column_sum df name) \<Longrightarrow> \<not> isl (column_mean df name)"
  by (auto simp: column_sum_def column_mean_def split: sum.splits)

lemma check_columns_cases:
  "check_columns df names =
     (if set names \<subseteq> set (df_columns df) then Inr ()
      else Inl (KeyError (filter (\<lambda>n. n \<notin> set (df_columns df)) names)))"
proof (cases "filter (\<lambda>n. n \<notin> set (df_columns df)) names")
  case Nil
  then have "set names \<subseteq> set (df_columns df)"
    by (auto simp: filter_empty_conv)
  then show ?thesis using Nil by (simp add: check_columns_def)
next
  case (Cons a as)
  then have "a \<in> set (filter (\<lambda>n. n \<notin> set (df_columns df)) names)"
    by simp
  then have "\<not> set names \<subseteq> set (df_columns df)"
    by auto
  then show ?thesis using Cons by (simp add: check_columns_def)
qed

lemma column_sums_KeyError:
  "column_sums df names = Inl (KeyError ks) \<Longrightarrow> \<not> set names \<subseteq> set (df_columns df)"
proof (induction names)
  case Nil
  then show ?case by simp
next
  case (Cons n names)
  then show ?case
    by (auto simp: and_then_Inl dest: column_sum_KeyError)
qed

lemma idxmax_Inl: "idxmax xs = Inl e \<Longrightarrow> e = ValueError"
  by (auto simp: idxmax_def split: list.splits)

lemma numbers_idxmax_Inl: "numbers_idxmax ns = Inl e \<Longrightarrow> e = ValueError"
  by (auto simp: numbers_idxmax_def split: option.splits dest: idxmax_Inl)

lemma series_idxmax_Inl: "series_idxmax s = Inl e \<Longrightarrow> e = ValueError"
  by (cases s) (auto dest: idxmax_Inl)

lemma top_column_absent:
  "\<not> set names \<subseteq> set (df_columns df) \<Longrightarrow>
   top_column df names = Inl (KeyError (filter (\<lambda>n. n \<notin> set (df_columns df)) names))"
  by (simp add: top_column_def check_columns_cases)

lemma top_column_Inr:
  "top_column df names = Inr t \<Longrightarrow> set names \<subseteq> set (df_columns df)"
  by (auto simp: top_column_def check_columns_cases and_then_Inr split: if_splits)

lemma top_column_KeyError:
  "top_column df names = Inl (KeyError ks) \<Longrightarrow>
   ks = filter (\<lambda>n. n \<notin> set (df_columns df)) names \<and> \<not> set names \<subseteq> set (df_columns df)"
  by (auto simp: top_column_def check_columns_cases and_then_Inl split: if_splits
           dest: column_sums_KeyError numbers_idxmax_Inl)

lemma count_equal_absent:
  "name \<notin> set (df_columns df) \<Longrightarrow> count_equal df name s = Inl (KeyError [name])"
  by (simp add: count_equal_def get_column_absent)

lemma count_equal_present:
  "name \<in> set (df_columns df) \<Longrightarrow> \<exists>k. count_equal df name s = Inr k"
  using get_column_present [of name df] by (auto simp: count_equal_def)

lemma count_equal_Inr:
  "count_equal df name s = Inr k \<Longrightarrow> name \<in> set (df_columns df)"
  by (auto simp: count_equal_def and_then_Inr dest: get_column_Inr)

lemma count_equal_Inl:
  "count_equal df name s = Inl e \<Longrightarrow> e = KeyError [name] \<and> name \<notin> set (df_columns df)"
  by (auto simp: count_equal_def and_then_Inl dest: get_column_Inl)

lemma best_row_label_score:
  "best_row_label df score label =
     and_then (score_position df score) (\<lambda>i.
       and_then (get_column df label) (\<lambda>labels. Inr (labels ! i)))"
proof (cases "get_column df score")
  case (Inl e)
  then show ?thesis by (simp add: best_row_label_def score_position_def)
next
  case (Inr vs)
  then show ?thesis
    by (cases "to_series vs") (simp_all add: best_row_label_def score_position_def)
qed

lemma score_position_absent:
  "score \<notin> set (df_columns df) \<Longrightarrow> score_position df score = Inl (KeyError [score])"
  by (simp add: score_position_def get_column_absent)

lemma score_position_Inr:
  "score_position df score = Inr i \<Longrightarrow> score \<in> set (df_columns df)"
  by (auto simp: score_position_def and_then_Inr dest: get_column_Inr)

lemma score_position_KeyError:
  "score_position df score = Inl (KeyError ks) \<Longrightarrow> ks = [score] \<and> score \<notin> set (df_columns df)"
  by (auto simp: score_position_def and_then_Inl dest: get_column_Inl to_series_Inl series_idxmax_Inl)

lemma best_row_label_Inr:
  "best_row_label df score label = Inr b \<Longrightarrow>
   score \<in> set (df_columns df) \<and> label \<in> set (df_columns df)"
  by (auto simp: best_row_label_score and_then_Inr dest: score_position_Inr get_column_Inr)

lemma best_row_label_KeyError:
  "best_row_label df score label = Inl (KeyError ks) \<Longrightarrow>
   (ks = [score] \<and> score \<notin> set (df_columns df)) \<or> (ks = [label] \<and> label \<notin> set (df_columns df))"
  by (auto simp: best_row_label_score and_then_Inl dest: score_position_KeyError get_column_Inl)

subsection \<open>Failures of the metrics\<close>

lemma get_dataset_Inr: "get_dataset data key = Inr df \<Longrightarrow> map_of data key = Some df"
  by (auto simp: get_dataset_def split: option.splits)

lemma get_dataset_Inl:
  "get_dataset data key = Inl e \<Longrightarrow> e = KeyError [key] \<and> map_of data key = None"
  by (auto simp: get_dataset_def split: option.splits)

lemma daily_metrics_Inr:
  assumes "daily_metrics sales customers = Inr ms"
  shows "set [''Total_Revenue'', ''Product_A'', ''Product_B'', ''Product_C''] \<subseteq> set (df_columns sales)"
    and "''Category'' \<in> set (df_columns customers)"
proof -
  from assms obtain a t k where
    a: "column_sum sales ''Total_Revenue'' = Inr a"
    and t: "top_column sales [''Product_A'', ''Product_B'', ''Product_C''] = Inr t"
    and k: "count_equal customers ''Category'' ''Premium'' = Inr k"
    by (auto simp: daily_metrics_def and_then_Inr Let_def)
  show "set [''Total_Revenue'', ''Product_A'', ''Product_B'', ''Product_C''] \<subseteq> set (df_columns sales)"
    using column_sum_Inr [OF a] top_column_Inr [OF t] by simp
  show "''Category'' \<in> set (df_columns customers)"
    using count_equal_Inr [OF k] .
qed

lemma weekly_metrics_Inr:
  assumes "weekly_metrics sales customers = Inr ms"
  shows "set [''Actual_Sales'', ''Customer_Retention'', ''New_Customers''] \<subseteq> set (df_columns sales)"
    and "set [''Performance_Score'', ''Department''] \<subseteq> set (df_columns customers)"
proof -
  from assms obtain a m n b where
    a: "column_sum sales ''Actual_Sales'' = Inr a"
    and m: "column_mean sales ''Customer_Retention'' = Inr m"
    and n: "column_sum sales ''New_Customers'' = Inr n"
    and b: "best_row_label customers ''Performance_Score'' ''Department'' = Inr b"
    by (auto simp: weekly_metrics_def and_then_Inr)
  show "set [''Actual_Sales'', ''Customer_Retention'', ''New_Customers''] \<subseteq> set (df_columns sales)"
    using column_sum_Inr [OF a] column_mean_Inr [OF m] column_sum_Inr [OF n] by simp
  show "set [''Performance_Score'', ''Department''] \<subseteq> set (df_columns customers)"
    using best_row_label_Inr [OF b] by simp
qed

lemma daily_metrics_KeyError:
  assumes "daily_metrics sales customers = Inl (KeyError ks)"
  shows "ks \<noteq> [] \<and> set ks \<subseteq>
           {n \<in> set [''Total_Revenue'', ''Product_A'', ''Product_B'', ''Product_C''].
              n \<notin> set (df_columns sales)}
         \<union> {n \<in> set [''Category'']. n \<notin> set (df_columns customers)}"
proof -
  from assms consider
      "column_sum sales ''Total_Revenue'' = Inl (KeyError ks)"
    | "column_mean sales ''Total_Revenue'' = Inl (KeyError ks)"
    | "top_column sales [''Product_A'', ''Product_B'', ''Product_C''] = Inl (KeyError ks)"
    | "count_equal customers ''Category'' ''Premium'' = Inl (KeyError ks)"
    by (auto simp: daily_metrics_def and_then_Inl Let_def)
  then show ?thesis
  proof cases
    case 1
    from column_sum_KeyError [OF 1] show ?thesis by simp
  next
    case 2
    from column_mean_KeyError [OF 2] show ?thesis by simp
  next
    case 3
    from top_column_KeyError [OF 3] show ?thesis by (auto simp: filter_empty_conv)
  next
    case 4
    from count_equal_Inl [OF 4] show ?thesis by simp
  qed
qed

lemma weekly_metrics_KeyError:
  assumes "weekly_metrics sales customers = Inl (KeyError ks)"
  shows "ks \<noteq> [] \<and> set ks \<subseteq>
           {n \<in> set [''Actual_Sales'', ''Customer_Retention'', ''New_Customers''].
              n \<notin> set (df_columns sales)}
         \<union> {n \<in> set [''Performance_Score'', ''Department'']. n \<notin> set (df_columns customers)}"
proof -
  from assms consider
      "column_sum sales ''Actual_Sales'' = Inl (KeyError ks)"
    | "column_mean sales ''Customer_Retention'' = Inl (KeyError ks)"
    | "column_sum sales ''New_Customers'' = Inl (KeyError ks)"
    | "best_row_label customers ''Performance_Score'' ''Department'' = Inl (KeyError ks)"
    by (auto simp: weekly_metrics_def and_then_Inl)
  then show ?thesis
  proof cases
    case 1
    from column_sum_KeyError [OF 1] show ?thesis by simp
  next
    case 2
    from column_mean_KeyError [OF 2] show ?thesis by simp
  next
    case 3
    from column_sum_KeyError [OF 3] show ?thesis by simp
  next
    case 4
    from best_row_label_KeyError [OF 4] show ?thesis by auto
  qed
qed

lemma summary_metrics_present:
  assumes "map_of data ''sales_data'' = Some sales" and "map_of data ''customer_data'' = Some customers"
  shows "summary_metrics rt data =
           (if rt = ''daily'' then daily_metrics sales customers else weekly_metrics sales customers)"
    and "set (absent_names rt data) =
           {n \<in> set (required_sales_columns rt). n \<notin> set (df_columns sales)}
         \<union> {n \<in> set (required_customer_columns rt). n \<notin> set (df_columns customers)}"
  using assms
  by (auto simp: summary_metrics_def get_dataset_def absent_names_def absent_columns_def)

lemma summary_metrics_Inr_absent:
  assumes "summary_metrics rt data = Inr ms"
  shows "absent_names rt data = []"
proof -
  from assms obtain sales customers where
    s: "get_dataset data ''sales_data'' = Inr sales"
    and c: "get_dataset data ''customer_data'' = Inr customers"
    and m: "(if rt = ''daily'' then daily_metrics sales customers
             else weekly_metrics sales customers) = Inr ms"
    by (auto simp: summary_metrics_def and_then_Inr)
  note p = summary_metrics_present [OF get_dataset_Inr [OF s] get_dataset_Inr [OF c]]
  have "set (absent_names rt data) = {}"
  proof (cases "rt = ''daily''")
    case True
    with m have "daily_metrics sales customers = Inr ms" by simp
    from daily_metrics_Inr [OF this] show ?thesis
      unfolding p(2) using True
      by (auto simp: required_sales_columns_def required_customer_columns_def)
  next
    case False
    with m have "weekly_metrics sales customers = Inr ms" by simp
    from weekly_metrics_Inr [OF this] show ?thesis
      unfolding p(2) using False
      by (auto simp: required_sales_columns_def required_customer_columns_def)
  qed
  then show ?thesis by simp
qed

lemma summary_metrics_KeyError:
  assumes "summary_metrics rt data = Inl (KeyError ks)"
  shows "ks \<noteq> [] \<and> set ks \<subseteq> set (absent_names rt data)"
proof (cases "map_of data ''sales_data''")
  case None
  then have "summary_metrics rt data = Inl (KeyError [''sales_data''])"
    by (simp add: summary_metrics_def get_dataset_def)
  with assms None show ?thesis
    by (auto simp: absent_names_def absent_columns_def)
next
  case (Some sales)
  show ?thesis
  proof (cases "map_of data ''customer_data''")
    case None
    then have "summary_metrics rt data = Inl (KeyError [''customer_data''])"
      using Some by (simp add: summary_metrics_def get_dataset_def)
    with assms None show ?thesis
      by (auto simp: absent_names_def absent_columns_def)
  next
    case (Some customers)
    note p = summary_metrics_present [OF \<open>map_of data ''sales_data'' = Some sales\<close> Some]
    show ?thesis
    proof (cases "rt = ''daily''")
      case True
      with assms p(1) have "daily_metrics sales customers = Inl (KeyError ks)" by simp
      from daily_metrics_KeyError [OF this] show ?thesis
        unfolding p(2) using True
        by (simp add: required_sales_columns_def required_customer_columns_def)
    next
      case False
      with assms p(1) have "weekly_metrics sales customers = Inl (KeyError ks)" by simp
      from weekly_metrics_KeyError [OF this] show ?thesis
        unfolding p(2) using False
        by (simp add: required_sales_columns_def required_customer_columns_def)
    qed
  qed
qed

lemma daily_metrics_first_absent:
  assumes "aggregations_defined ''daily'' sales customers"
    and "\<not> (set [''Total_Revenue'', ''Product_A'', ''Product_B'', ''Product_C''] \<subseteq> set (df_columns sales)
            \<and> ''Category'' \<in> set (df_columns customers))"
  shows "\<exists>ks. daily_metrics sales customers = Inl (KeyError ks)"
proof (cases "''Total_Revenue'' \<in> set (df_columns sales)")
  case False
  then show ?thesis
    by (simp add: daily_metrics_def column_sum_absent)
next
  case True
  then have "\<not> isl (column_sum sales ''Total_Revenue'')"
    using assms(1) by (simp add: aggregations_defined_def)
  then obtain a m where a: "column_sum sales ''Total_Revenue'' = Inr a"
    and m: "column_mean sales ''Total_Revenue'' = Inr m"
    using column_mean_defined [of sales "''Total_Revenue''"]
    by (cases "column_sum sales ''Total_Revenue''"; cases "column_mean sales ''Total_Revenue''") auto
  show ?thesis
  proof (cases "set [''Product_A'', ''Product_B'', ''Product_C''] \<subseteq> set (df_columns sales)")
    case False
    then show ?thesis
      using top_column_absent [OF False] by (simp add: daily_metrics_def a m)
  next
    case products: True
    then have "\<not> isl (top_column sales [''Product_A'', ''Product_B'', ''Product_C''])"
      using assms(1) by (simp add: aggregations_defined_def)
    then obtain t where t: "top_column sales [''Product_A'', ''Product_B'', ''Product_C''] = Inr t"
      by (cases "top_column sales [''Product_A'', ''Product_B'', ''Product_C'']") auto
    have "''Category'' \<notin> set (df_columns customers)"
      using assms(2) True products by simp
    then show ?thesis
      by (simp add: daily_metrics_def a m t count_equal_absent Let_def)
  qed
qed

lemma weekly_metrics_first_absent:
  assumes "rt \<noteq> ''daily''" and "aggregations_defined rt sales customers"
    and "\<not> (set [''Actual_Sales'', ''Customer_Retention'', ''New_Customers''] \<subseteq> set (df_columns sales)
            \<and> set [''Performance_Score'', ''Department''] \<subseteq> set (df_columns customers))"
  shows "\<exists>ks. weekly_metrics sales customers = Inl (KeyError ks)"
proof -
  have agg: "\<And>n. n \<in> set [''Actual_Sales'', ''Customer_Retention'', ''New_Customers''] \<Longrightarrow>
      n \<in> set (df_columns sales) \<Longrightarrow> \<not> isl (column_sum sales n)"
    using assms(1,2) by (auto simp: aggregations_defined_def)
  show ?thesis
  proof (cases "''Actual_Sales'' \<in> set (df_columns sales)")
    case False
    then show ?thesis by (simp add: weekly_metrics_def column_sum_absent)
  next
    case s1: True
    then obtain a where a: "column_sum sales ''Actual_Sales'' = Inr a"
      using agg [of "''Actual_Sales''"] by (cases "column_sum sales ''Actual_Sales''") auto
    show ?thesis
    proof (cases "''Customer_Retention'' \<in> set (df_columns sales)")
      case False
      then show ?thesis by (simp add: weekly_metrics_def a column_mean_absent)
    next
      case s2: True
      then have "\<not> isl (column_mean sales ''Customer_Retention'')"
        using agg [of "''Customer_Retention''"] column_mean_defined by simp
      then obtain m where m: "column_mean sales ''Customer_Retention'' = Inr m"
        by (cases "column_mean sales ''Customer_Retention''") auto
      show ?thesis
      proof (cases "''New_Customers'' \<in> set (df_columns sales)")
        case False
        then show ?thesis by (simp add: weekly_metrics_def a m column_sum_absent)
      next
        case s3: True
        then obtain n where n: "column_sum sales ''New_Customers'' = Inr n"
          using agg [of "''New_Customers''"] by (cases "column_sum sales ''New_Customers''") auto
        show ?thesis
        proof (cases "''Performance_Score'' \<in> set (df_columns customers)")
          case False
          then show ?thesis
            by (simp add: weekly_metrics_def a m n best_row_label_score score_position_absent)
        next
          case c1: True
          then have "\<not> isl (score_position customers ''Performance_Score'')"
            using assms(1,2) by (simp add: aggregations_defined_def)
          then obtain i where i: "score_position customers ''Performance_Score'' = Inr i"
            by (cases "score_position customers ''Performance_Score''") auto
          have "''Department'' \<notin> set (df_columns customers)"
            using assms(3) s1 s2 s3 c1 by simp
          then show ?thesis
            by (simp add: weekly_metrics_def a m n best_row_label_score i get_column_absent)
        qed
      qed
    qed
  qed
qed

lemma summary_metrics_first_absent:
  assumes "map_of data ''sales_data'' = Some sales" and "map_of data ''customer_data'' = Some customers"
    and "aggregations_defined rt sales customers"
    and "absent_names rt data \<noteq> []"
  shows "\<exists>ks. summary_metrics rt data = Inl (KeyError ks)"
proof -
  note p = summary_metrics_present [OF assms(1,2)]
  have ne: "set (absent_names rt data) \<noteq> {}"
    using assms(4) by simp
  show ?thesis
  proof (cases "rt = ''daily''")
    case True
    have "\<not> (set [''Total_Revenue'', ''Product_A'', ''Product_B'', ''Product_C''] \<subseteq> set (df_columns sales)
            \<and> ''Category'' \<in> set (df_columns customers))"
      using ne unfolding p(2) using True
      by (auto simp: required_sales_columns_def required_customer_columns_def)
    then show ?thesis
      using daily_metrics_first_absent [of sales customers] assms(3) True by (simp add: p(1))
  next
    case False
    have "\<not> (set [''Actual_Sales'', ''Customer_Retention'', ''New_Customers''] \<subseteq> set (df_columns sales)
            \<and> set [''Performance_Score'', ''Department''] \<subseteq> set (df_columns customers))"
      using ne unfolding p(2) using False
      by (auto simp: required_sales_columns_def required_customer_columns_def)
    then show ?thesis
      using weekly_metrics_first_absent [OF False assms(3)] False by (simp add: p(1))
  qed
qed

lemma metrics_error_surfaces:
  "summary_metrics rt data = Inl e \<Longrightarrow> makedirs_ok env (output_directory cfg) \<Longrightarrow>
   generate_report cfg env rt (Some data) = Inl e"
  by (simp add: generate_report_def create_summary_sheet_def Let_def)

lemma no_missing_data_error: "exc_class e \<noteq> ''MissingDataError''"
  by (cases e) simp_all

text \<open>
  Claim C5, as amended. When a data set or column that the metrics of the report type
  need is absent from the bundle, the computation of the metrics fails, and
  \<open>generate_report\<close> fails with the same exception, uncaught. The exception is never a
  \<open>MissingDataError\<close>: the lookups raise \<open>KeyError\<close>. A \<open>KeyError\<close> of the metrics
  carries names that are absent and needed, and nothing else; an absent
  \<open>sales_data\<close> (then \<open>customer_data\<close>, then, for a daily report, \<open>Total_Revenue\<close>) is
  the reported key; and whenever the aggregations of the columns that are present
  succeed, the failure is a \<open>KeyError\<close>.
\<close>

theorem missing_data_key_error:
  assumes "absent_names rt data \<noteq> []"
  shows "(\<exists>e. summary_metrics rt data = Inl e \<and> exc_class e \<noteq> ''MissingDataError''
            \<and> (makedirs_ok env (output_directory cfg) \<longrightarrow>
                  generate_report cfg env rt (Some data) = Inl e))
       \<and> (\<forall>ks. summary_metrics rt data = Inl (KeyError ks) \<longrightarrow>
              ks \<noteq> [] \<and> set ks \<subseteq> set (absent_names rt data))
       \<and> (map_of data ''sales_data'' = None \<longrightarrow>
              summary_metrics rt data = Inl (KeyError [''sales_data'']))
       \<and> (map_of data ''sales_data'' \<noteq> None \<and> map_of data ''customer_data'' = None \<longrightarrow>
              summary_metrics rt data = Inl (KeyError [''customer_data'']))
       \<and> (\<forall>sales customers.
              map_of data ''sales_data'' = Some sales \<and> map_of data ''customer_data'' = Some customers
              \<and> rt = ''daily'' \<and> ''Total_Revenue'' \<notin> set (df_columns sales) \<longrightarrow>
              summary_metrics rt data = Inl (KeyError [''Total_Revenue'']))
       \<and> (\<forall>sales customers.
              map_of data ''sales_data'' = Some sales \<and> map_of data ''customer_data'' = Some customers
              \<and> aggregations_defined rt sales customers \<longrightarrow>
              (\<exists>ks. summary_metrics rt data = Inl (KeyError ks)))"
proof -
  have fails: "\<exists>e. summary_metrics rt data = Inl e"
  proof (cases "summary_metrics rt data")
    case (Inl e)
    then show ?thesis by blast
  next
    case (Inr ms)
    from summary_metrics_Inr_absent [OF this] assms show ?thesis by simp
  qed
  then obtain e where e: "summary_metrics rt data = Inl e"
    by blast
  have 1: "\<exists>e. summary_metrics rt data = Inl e \<and> exc_class e \<noteq> ''MissingDataError''
            \<and> (makedirs_ok env (output_directory cfg) \<longrightarrow>
                  generate_report cfg env rt (Some data) = Inl e)"
    using e no_missing_data_error [of e] metrics_error_surfaces [OF e, of env cfg] by blast
  have 2: "\<forall>ks. summary_metrics rt data = Inl (KeyError ks) \<longrightarrow>
              ks \<noteq> [] \<and> set ks \<subseteq> set (absent_names rt data)"
    using summary_metrics_KeyError by blast
  have 3: "map_of data ''sales_data'' = None \<longrightarrow>
              summary_metrics rt data = Inl (KeyError [''sales_data''])"
    by (simp add: summary_metrics_def get_dataset_def)
  have 4: "map_of data ''sales_data'' \<noteq> None \<and> map_of data ''customer_data'' = None \<longrightarrow>
              summary_metrics rt data = Inl (KeyError [''customer_data''])"
    by (auto simp: summary_metrics_def get_dataset_def)
  have 5: "\<forall>sales customers.
              map_of data ''sales_data'' = Some sales \<and> map_of data ''customer_data'' = Some customers
              \<and> rt = ''daily'' \<and> ''Total_Revenue'' \<notin> set (df_columns sales) \<longrightarrow>
              summary_metrics rt data = Inl (KeyError [''Total_Revenue''])"
    by (auto simp: summary_metrics_def get_dataset_def daily_metrics_def column_sum_absent)
  have 6: "\<forall>sales customers.
              map_of data ''sales_data'' = Some sales \<and> map_of data ''customer_data'' = Some customers
              \<and> aggregations_defined rt sales customers \<longrightarrow>
              (\<exists>ks. summary_metrics rt data = Inl (KeyError ks))"
    using summary_metrics_first_absent assms by blast
  show ?thesis
    using 1 2 3 4 5 6 by blast
qed

text \<open>An empty bundle, and a daily bundle whose sales data has no \<open>Total_Revenue\<close>.\<close>

theorem missing_data_key_error_witness:
  "summary_metrics ''daily'' [] = Inl (KeyError [''sales_data''])
   \<and> generate_report default_config demo_env ''daily'' (Some []) = Inl (KeyError [''sales_data''])
   \<and> summary_metrics ''daily'' no_revenue_bundle = Inl (KeyError [''Total_Revenue''])
   \<and> generate_report default_config demo_env ''daily'' (Some no_revenue_bundle)
       = Inl (KeyError [''Total_Revenue''])"
proof -
  have a1: "absent_names ''daily'' [] \<noteq> []"
    by (simp add: absent_names_def absent_columns_def)
  have a2: "absent_names ''daily'' no_revenue_bundle \<noteq> []"
    by (simp add: absent_names_def absent_columns_def no_revenue_bundle_def sales_no_revenue_def
          required_sales_columns_def)
  have m: "makedirs_ok demo_env (output_directory default_config)"
    by (simp add: demo_env_def)
  have d: "map_of no_revenue_bundle ''sales_data'' = Some sales_no_revenue"
      "map_of no_revenue_bundle ''customer_data'' = Some customers100"
    by (simp_all add: no_revenue_bundle_def)
  have c: "''Total_Revenue'' \<notin> set (df_columns sales_no_revenue)"
    by (simp add: sales_no_revenue_def)
  have e1: "summary_metrics ''daily'' [] = Inl (KeyError [''sales_data''])"
    using missing_data_key_error [OF a1, of demo_env default_config] by simp
  have e2: "summary_metrics ''daily'' no_revenue_bundle = Inl (KeyError [''Total_Revenue''])"
    using missing_data_key_error [OF a2, of demo_env default_config] d c by blast
  have g1: "generate_report default_config demo_env ''daily'' (Some []) = Inl (KeyError [''sales_data''])"
    using missing_data_key_error [OF a1, of demo_env default_config] m e1 by auto
  have g2: "generate_report default_config demo_env ''daily'' (Some no_revenue_bundle)
       = Inl (KeyError [''Total_Revenue''])"
    using missing_data_key_error [OF a2, of demo_env default_config] m e2 by auto
  show ?thesis
    using e1 e2 g1 g2 by blast
qed

text \<open>
  Claim C5 as stated has the failure be a \<open>MissingDataError\<close>. For a bundle without
  \<open>sales_data\<close> the exception is the \<open>KeyError\<close> of the dictionary lookup.
\<close>

theorem missing_dataset_is_key_error:
  "summary_metrics ''weekly'' [(''customer_data'', departments)] = Inl (KeyError [''sales_data''])
   \<and> exc_class (KeyError [''sales_data'']) = ''KeyError''
   \<and> generate_report default_config demo_env ''weekly'' (Some [(''customer_data'', departments)])
       = Inl (KeyError [''sales_data''])"
  by (simp add: summary_metrics_def get_dataset_def generate_report_def create_summary_sheet_def
        Let_def demo_env_def)







subsection \<open>Frames built from columns\<close>












subsection \<open>The weekly sample\<close>

lemma length_draws [simp]:
  "length (randint env k lo hi n) = n"
  "length (uniform env k a b n) = n"
  "length (choice env k options n) = n"
  by (simp_all add: randint_def uniform_def choice_def)

lemma draws_numbers [simp]:
  "v \<in> set (randint env k lo hi n) \<Longrightarrow> is_number v"
  "v \<in> set (uniform env k a b n) \<Longrightarrow> is_number v"
  by (auto simp: randint_def uniform_def is_number_def)




subsection \<open>The cells of the summary sheet\<close>


lemma get_cell_merge_cells [simp]: "get_cell (merge_cells rng ws) r c = get_cell ws r c"
  by (simp add: merge_cells_def get_cell_def)









subsection \<open>Report types other than daily\<close>






end
